theory Spec2Isabelle
  imports Main
begin

section \<open>The time printer: current\_time.py\<close>

text \<open>
  The program is
  \<^verbatim>\<open>
  def main() -> None:
      now = datetime.now().astimezone()
      print(now.strftime("%Y-%m-%d %H:%M:%S %Z (%z)"))
  \<close>
  Its behaviour is the behaviour of the three library calls it chains, so the embedding
  follows them: the datetime and timezone objects with the ranges their constructors
  check, the directive scanner of \<open>datetime.strftime\<close> (which renders \<open>%f\<close>,
  \<open>%z\<close> and \<open>%Z\<close> itself and hands the rest to the platform), the platform
  \<open>strftime\<close> on the directives of the format string, and \<open>print\<close>.
  Strings are lists of 8-bit characters.
\<close>

subsection \<open>Decimal rendering\<close>

definition digit_char :: "nat \<Rightarrow> char" where
  "digit_char d = ''0123456789'' ! d"

definition is_digit :: "char \<Rightarrow> bool" where
  "is_digit c = (c \<in> set ''0123456789'')"

text \<open>\<open>str(n)\<close> for a non-negative integer.\<close>

fun str_nat :: "nat \<Rightarrow> string" where
  "str_nat n = (if n < 10 then [digit_char n] else str_nat (n div 10) @ [digit_char (n mod 10)])"

declare str_nat.simps [simp del]

text \<open>\<open>'%0wd' % n\<close>: at least \<open>w\<close> digits, padded with zeros on the left.\<close>

definition zero_pad :: "nat \<Rightarrow> nat \<Rightarrow> string" where
  "zero_pad w n = replicate (w - length (str_nat n)) (CHR ''0'') @ str_nat n"

subsection \<open>Data model\<close>

text \<open>
  The exceptions the clock and time zone calls can raise, and those a write to standard
  output can raise.
\<close>

datatype fault = OSError | OverflowError | ValueError | UnicodeEncodeError | BrokenPipeError

text \<open>
  \<open>timezone(timedelta(seconds=tm_gmtoff), tm_zone)\<close>, the object \<open>astimezone()\<close>
  attaches: a fixed offset in whole seconds east of UTC and the display name the platform
  reports.
\<close>

record timezone =
  utcoffset :: int
  tzname :: string

record datetime =
  year :: nat
  month :: nat
  day :: nat
  hour :: nat
  minute :: nat
  second :: nat
  microsecond :: nat
  tzinfo :: "timezone option"

text \<open>
  The calendar helpers and the range checks of the datetime constructor
  (\<open>_check_date_fields\<close>, \<open>_check_time_fields\<close>). The month tables start at index 1;
  index 0 holds a placeholder that is never read.
\<close>

definition is_leap :: "nat \<Rightarrow> bool" where
  "is_leap y = (y mod 4 = 0 \<and> (y mod 100 \<noteq> 0 \<or> y mod 400 = 0))"

definition days_in_month :: "nat \<Rightarrow> nat \<Rightarrow> nat" where
  "days_in_month y m =
     (if m = 2 \<and> is_leap y then 29 else [0, 31, 28, 31, 30, 31, 30, 31, 31, 30, 31, 30, 31] ! m)"

definition check_date_fields :: "nat \<Rightarrow> nat \<Rightarrow> nat \<Rightarrow> bool" where
  "check_date_fields y m d =
     (1 \<le> y \<and> y \<le> 9999 \<and> 1 \<le> m \<and> m \<le> 12 \<and> 1 \<le> d \<and> d \<le> days_in_month y m)"

definition check_time_fields :: "nat \<Rightarrow> nat \<Rightarrow> nat \<Rightarrow> nat \<Rightarrow> bool" where
  "check_time_fields h mi s us = (h \<le> 23 \<and> mi \<le> 59 \<and> s \<le> 59 \<and> us \<le> 999999)"

definition valid_datetime :: "datetime \<Rightarrow> bool" where
  "valid_datetime dt =
     (check_date_fields (year dt) (month dt) (day dt) \<and>
      check_time_fields (hour dt) (minute dt) (second dt) (microsecond dt))"

text \<open>The timezone constructor accepts offsets strictly between -24 and +24 hours.\<close>

definition valid_timezone :: "timezone \<Rightarrow> bool" where
  "valid_timezone tz = (- 86400 < utcoffset tz \<and> utcoffset tz < 86400)"

subsection \<open>strftime\<close>

text \<open>
  \<open>_format_offset(off, sep='')\<close>: sign, two digits of hours, two of minutes, and two
  of seconds only when the offset is not a whole number of minutes; empty for a naive
  object.
\<close>

definition format_offset :: "int option \<Rightarrow> string" where
  "format_offset off =
     (case off of
        None \<Rightarrow> []
      | Some x \<Rightarrow>
          (let sign = (if x < 0 then CHR ''-'' else CHR ''+'');
               a = nat \<bar>x\<bar>;
               hh = a div 3600;
               mm = (a mod 3600) div 60;
               ss = a mod 60
           in sign # zero_pad 2 hh @ zero_pad 2 mm @ (if ss \<noteq> 0 then zero_pad 2 ss else [])))"

definition dt_utcoffset :: "datetime \<Rightarrow> int option" where
  "dt_utcoffset dt = map_option utcoffset (tzinfo dt)"

text \<open>\<open>s.replace('%', '%%')\<close>: the name is escaped before the platform sees it.\<close>

definition escape_percent :: "string \<Rightarrow> string" where
  "escape_percent s = concat (map (\<lambda>c. if c = CHR ''%'' then ''%%'' else [c]) s)"

definition Zreplace :: "datetime \<Rightarrow> string" where
  "Zreplace dt = (case tzinfo dt of None \<Rightarrow> [] | Some tz \<Rightarrow> escape_percent (tzname tz))"

text \<open>
  The scanner of \<open>_wrap_strftime\<close>: it walks the format, replaces \<open>%f\<close>, \<open>%z\<close>
  and \<open>%Z\<close>, and pushes every other character and directive unchanged (a lone
  \<open>%\<close> at the end too).
\<close>

fun wrap_scan :: "datetime \<Rightarrow> string \<Rightarrow> string" where
  "wrap_scan dt [] = []"
| "wrap_scan dt (c # cs) =
     (if c = CHR ''%'' then
        (case cs of
           [] \<Rightarrow> [CHR ''%'']
         | d # ds \<Rightarrow>
             (if d = CHR ''f'' then zero_pad 6 (microsecond dt) @ wrap_scan dt ds
              else if d = CHR ''z'' then format_offset (dt_utcoffset dt) @ wrap_scan dt ds
              else if d = CHR ''Z'' then Zreplace dt @ wrap_scan dt ds
              else CHR ''%'' # d # wrap_scan dt ds))
      else c # wrap_scan dt cs)"

text \<open>
  \<open>timetuple()\<close>: the fields the platform formatter reads. Weekday, day of year and
  the DST flag are left out, no directive modelled below reads them.
\<close>

record struct_time =
  tm_year :: nat
  tm_mon :: nat
  tm_mday :: nat
  tm_hour :: nat
  tm_min :: nat
  tm_sec :: nat

definition timetuple :: "datetime \<Rightarrow> struct_time" where
  "timetuple dt =
     \<lparr>tm_year = year dt, tm_mon = month dt, tm_mday = day dt,
      tm_hour = hour dt, tm_min = minute dt, tm_sec = second dt\<rparr>"

text \<open>
  The platform's \<open>time.strftime\<close> on the directives this program uses, as the Python
  documentation gives them: \<open>%Y\<close> the year with century (0001, ..., 9999),
  \<open>%m %d %H %M %S\<close> as two digits, zero-padded, \<open>%%\<close> a percent sign. Some C
  libraries do not pad a year before 1000; no system clock reads such a year, and the
  documented rendering is the one modelled. Any other directive, and a lone \<open>%\<close> at the
  end, is outside this model and is a \<open>ValueError\<close> here.
\<close>

definition directive :: "char \<Rightarrow> struct_time \<Rightarrow> string option" where
  "directive d tt =
     (if d = CHR ''Y'' then Some (zero_pad 4 (tm_year tt))
      else if d = CHR ''m'' then Some (zero_pad 2 (tm_mon tt))
      else if d = CHR ''d'' then Some (zero_pad 2 (tm_mday tt))
      else if d = CHR ''H'' then Some (zero_pad 2 (tm_hour tt))
      else if d = CHR ''M'' then Some (zero_pad 2 (tm_min tt))
      else if d = CHR ''S'' then Some (zero_pad 2 (tm_sec tt))
      else if d = CHR ''%'' then Some ''%''
      else None)"

fun time_strftime :: "string \<Rightarrow> struct_time \<Rightarrow> fault + string" where
  "time_strftime [] tt = Inr []"
| "time_strftime (c # cs) tt =
     (if c = CHR ''%'' then
        (case cs of
           [] \<Rightarrow> Inl ValueError
         | d # ds \<Rightarrow>
             (case directive d tt of
                None \<Rightarrow> Inl ValueError
              | Some s \<Rightarrow>
                  (case time_strftime ds tt of Inl e \<Rightarrow> Inl e | Inr r \<Rightarrow> Inr (s @ r))))
      else (case time_strftime cs tt of Inl e \<Rightarrow> Inl e | Inr r \<Rightarrow> Inr (c # r)))"

definition strftime :: "datetime \<Rightarrow> string \<Rightarrow> fault + string" where
  "strftime dt fmt = time_strftime (wrap_scan dt fmt) (timetuple dt)"

subsection \<open>The program\<close>

text \<open>
  Standard output as the process finds it. \<open>Accepting\<close>: the write and the flush at
  exit succeed (a terminal, a file, a pipe that is read). \<open>Raising\<close>: the write inside
  \<open>print\<close> raises, as when the text cannot be encoded for the stream
  (\<open>UnicodeEncodeError\<close>) or an unbuffered stream meets a device error or a closed
  pipe (\<open>OSError\<close>, \<open>BrokenPipeError\<close>).
  \<open>Failing_flush\<close>: \<open>print\<close> puts the text in the buffer and returns, and the
  flush at interpreter exit fails (\<open>/dev/full\<close>: \<open>OSError\<close>; a pipe whose reader is
  gone: \<open>BrokenPipeError\<close>). \<open>Absent\<close>: the descriptor was closed at start,
  \<open>sys.stdout\<close> is \<open>None\<close> and \<open>print\<close> does nothing.
\<close>

datatype stream = Accepting | Raising fault | Failing_flush fault | Absent

text \<open>
  What an invocation finds: the value of \<open>datetime.now()\<close> (a naive local date and
  time, or the exception the clock raised), the local zone the platform reports for that
  reading (or the exception), its standard output, and the argument vector, environment
  and files of the process.
\<close>

record host =
  wallclock :: "fault + datetime"
  localzone :: "fault + timezone"
  stdout :: stream
  argv :: "string list"
  environ :: "(string \<times> string) list"
  files :: "(string \<times> string) list"

text \<open>
  What reaches the outside of the process, in order: text on standard output, and on
  standard error the traceback of an uncaught exception or the interpreter's
  \<open>Exception ignored\<close> message for a flush that failed at exit.
\<close>

datatype effect = Stdout_write string | Stderr_traceback fault | Stderr_exception_ignored fault

text \<open>
  \<open>print(s)\<close>: the text and the line terminator go to standard output. On a stream that
  raises, \<open>print\<close> raises; on a stream whose flush will fail the text stays in the
  buffer and never arrives; with no stream \<open>print\<close> returns at once.
\<close>

definition print :: "stream \<Rightarrow> string \<Rightarrow> fault + effect list" where
  "print out s =
     (case out of
        Accepting \<Rightarrow> Inr [Stdout_write (s @ [CHR 0x0A])]
      | Raising e \<Rightarrow> Inl e
      | Failing_flush e \<Rightarrow> Inr []
      | Absent \<Rightarrow> Inr [])"

text \<open>\<open>astimezone()\<close> on the naive reading: the same fields, the local zone attached.\<close>

definition astimezone :: "host \<Rightarrow> datetime \<Rightarrow> fault + datetime" where
  "astimezone h dt =
     (case localzone h of Inl e \<Rightarrow> Inl e | Inr tz \<Rightarrow> Inr (dt\<lparr>tzinfo := Some tz\<rparr>))"

definition FMT :: string where
  "FMT = ''%Y-%m-%d %H:%M:%S %Z (%z)''"

text \<open>
  \<open>main()\<close> has no \<open>try\<close>: an exception of a call it makes, \<open>print\<close> included,
  leaves \<open>main\<close> (\<open>Inl\<close>); otherwise it returns after its one \<open>print\<close>.
\<close>

definition main :: "host \<Rightarrow> fault + effect list" where
  "main h =
     (case wallclock h of
        Inl e \<Rightarrow> Inl e
      | Inr dt \<Rightarrow>
          (case astimezone h dt of
             Inl e \<Rightarrow> Inl e
           | Inr now \<Rightarrow>
               (case strftime now FMT of
                  Inl e \<Rightarrow> Inl e
                | Inr s \<Rightarrow> print (stdout h) s)))"

text \<open>
  The script run as a program, \<open>if __name__ == "__main__": main()\<close>. An exception that
  leaves \<open>main\<close> is caught by nobody: the interpreter writes its traceback to standard
  error and the process ends with exit status 1. When \<open>main\<close> returns, the interpreter
  flushes standard output on its way out: if that flush fails it reports the exception as
  ignored on standard error and the exit status is 120, otherwise the exit status is 0.
\<close>

record outcome =
  effects :: "effect list"
  exit_status :: nat

definition run_script :: "host \<Rightarrow> outcome" where
  "run_script h =
     (case main h of
        Inl e \<Rightarrow> \<lparr>effects = [Stderr_traceback e], exit_status = 1\<rparr>
      | Inr w \<Rightarrow>
          (case stdout h of
             Failing_flush e \<Rightarrow> \<lparr>effects = w @ [Stderr_exception_ignored e], exit_status = 120\<rparr>
           | _ \<Rightarrow> \<lparr>effects = w, exit_status = 0\<rparr>))"

subsection \<open>Dates as numbers\<close>

text \<open>
  The proleptic Gregorian ordinal of the library (\<open>_days_before_year\<close>,
  \<open>_days_before_month\<close>, \<open>_ymd2ord\<close>, \<open>toordinal\<close>), and the subtraction of
  two datetimes, \<open>__sub__\<close>, with the resulting timedelta counted in microseconds.
  Subtracting a naive from an aware datetime raises \<open>TypeError\<close>: \<open>None\<close> here.
\<close>

definition days_before_year :: "nat \<Rightarrow> int" where
  "days_before_year y =
     (let p = int y - 1 in p * 365 + p div 4 - p div 100 + p div 400)"

definition days_before_month :: "nat \<Rightarrow> nat \<Rightarrow> int" where
  "days_before_month y m =
     [- 1, 0, 31, 59, 90, 120, 151, 181, 212, 243, 273, 304, 334] ! m +
     (if m > 2 \<and> is_leap y then 1 else 0)"

definition ymd2ord :: "nat \<Rightarrow> nat \<Rightarrow> nat \<Rightarrow> int" where
  "ymd2ord y m d = days_before_year y + days_before_month y m + int d"

definition toordinal :: "datetime \<Rightarrow> int" where
  "toordinal dt = ymd2ord (year dt) (month dt) (day dt)"

definition day_seconds :: "datetime \<Rightarrow> int" where
  "day_seconds dt = int (second dt) + int (minute dt) * 60 + int (hour dt) * 3600"

definition dt_sub :: "datetime \<Rightarrow> datetime \<Rightarrow> int option" where
  "dt_sub a b =
     (let base = ((toordinal a - toordinal b) * 86400 + (day_seconds a - day_seconds b)) * 1000000
                 + (int (microsecond a) - int (microsecond b))
      in case (dt_utcoffset a, dt_utcoffset b) of
           (None, None) \<Rightarrow> Some base
         | (Some x, Some y) \<Rightarrow> Some (base + (y - x) * 1000000)
         | _ \<Rightarrow> None)"

text \<open>
  \<open>a <= b\<close> on two datetimes, as \<open>_cmp\<close> decides it: with equal offsets (or both
  naive) the field tuples are compared, otherwise the sign of the difference \<open>a - b\<close>;
  comparing a naive with an aware datetime raises \<open>TypeError\<close>: \<open>None\<close> here.
\<close>

fun lex_le :: "nat list \<Rightarrow> nat list \<Rightarrow> bool" where
  "lex_le [] ys = True"
| "lex_le (x # xs) [] = False"
| "lex_le (x # xs) (y # ys) = (x < y \<or> (x = y \<and> lex_le xs ys))"

definition field_tuple :: "datetime \<Rightarrow> nat list" where
  "field_tuple dt =
     [year dt, month dt, day dt, hour dt, minute dt, second dt, microsecond dt]"

definition dt_le :: "datetime \<Rightarrow> datetime \<Rightarrow> bool option" where
  "dt_le a b =
     (if dt_utcoffset a = dt_utcoffset b then Some (lex_le (field_tuple a) (field_tuple b))
      else (case dt_sub a b of None \<Rightarrow> None | Some d \<Rightarrow> Some (d \<le> 0)))"

subsection \<open>Reading a printed line\<close>

text \<open>
  The properties speak of the output as a reader sees it: matched against a pattern, and
  parsed back. The pattern
  \<^verbatim>\<open>^\d{4}-\d{2}-\d{2} \d{2}:\d{2}:\d{2} \S* \([+-]\d{4}\)\n$\<close>
  is a sequence of character classes, each taken a fixed number of times, any number of
  times, or at most once; \<open>re_match\<close> tries every split, as a backtracking matcher
  does, and succeeds when the atoms consume the whole string. The final \<open>$\<close> of the
  pattern matches at the end of the string or before a last newline: an optional newline.
\<close>

definition is_space :: "char \<Rightarrow> bool" where
  "is_space c =
     (c \<in> set [CHR 0x09, CHR 0x0A, CHR 0x0B, CHR 0x0C, CHR 0x0D, CHR 0x1C, CHR 0x1D,
                CHR 0x1E, CHR 0x1F, CHR 0x20, CHR 0x85, CHR 0xA0])"

datatype quantifier = Times nat | Star | Optional

type_synonym atom = "(char \<Rightarrow> bool) \<times> quantifier"

fun re_match :: "atom list \<Rightarrow> string \<Rightarrow> bool" where
  "re_match [] s = (s = [])"
| "re_match ((p, Times 0) # r) s = re_match r s"
| "re_match ((p, Times (Suc n)) # r) s =
     (case s of [] \<Rightarrow> False | c # cs \<Rightarrow> p c \<and> re_match ((p, Times n) # r) cs)"
| "re_match ((p, Star) # r) s =
     (re_match r s \<or> (case s of [] \<Rightarrow> False | c # cs \<Rightarrow> p c \<and> re_match ((p, Star) # r) cs))"
| "re_match ((p, Optional) # r) s =
     (re_match r s \<or> (case s of [] \<Rightarrow> False | c # cs \<Rightarrow> p c \<and> re_match r cs))"

definition lit :: "char \<Rightarrow> atom" where
  "lit c = ((\<lambda>x. x = c), Times 1)"

definition digits :: "nat \<Rightarrow> atom" where
  "digits n = (is_digit, Times n)"

definition output_pattern :: "atom list" where
  "output_pattern =
     [digits 4, lit CHR ''-'', digits 2, lit CHR ''-'', digits 2, lit CHR '' '',
      digits 2, lit CHR '':'', digits 2, lit CHR '':'', digits 2, lit CHR '' '',
      ((\<lambda>c. \<not> is_space c), Star), lit CHR '' '',
      lit CHR ''('', ((\<lambda>c. c = CHR ''+'' \<or> c = CHR ''-''), Times 1), digits 4, lit CHR '')'',
      lit CHR 0x0A, ((\<lambda>c. c = CHR 0x0A), Optional)]"

text \<open>Reading decimal digits: \<open>int(s)\<close> on a string of digits, \<open>None\<close> otherwise.\<close>

definition digit_val :: "char \<Rightarrow> nat" where
  "digit_val c = length (takeWhile (\<lambda>x. x \<noteq> c) ''0123456789'')"

fun read_digits :: "string \<Rightarrow> nat \<Rightarrow> nat option" where
  "read_digits [] acc = Some acc"
| "read_digits (c # cs) acc =
     (if is_digit c then read_digits cs (10 * acc + digit_val c) else None)"

definition int_of_str :: "string \<Rightarrow> nat option" where
  "int_of_str s = (if s = [] then None else read_digits s 0)"

text \<open>
  The inverse format \<open>%Y-%m-%d %H:%M:%S\<close> on the date and time portion of a line
  as this program prints it, every field at its full width: four and five times two
  digits between the separators, accepted when the datetime constructor accepts the
  fields. The result is naive, its microsecond is 0.
\<close>

definition strptime_datetime :: "string \<Rightarrow> datetime option" where
  "strptime_datetime s =
     (if length s \<noteq> 19 \<or> s ! 4 \<noteq> CHR ''-'' \<or> s ! 7 \<noteq> CHR ''-'' \<or> s ! 10 \<noteq> CHR '' '' \<or>
         s ! 13 \<noteq> CHR '':'' \<or> s ! 16 \<noteq> CHR '':'' then None
      else
        (case (int_of_str (take 4 s), int_of_str (take 2 (drop 5 s)),
               int_of_str (take 2 (drop 8 s)), int_of_str (take 2 (drop 11 s)),
               int_of_str (take 2 (drop 14 s)), int_of_str (take 2 (drop 17 s))) of
           (Some y, Some m, Some d, Some hh, Some mi, Some ss) \<Rightarrow>
             (if check_date_fields y m d \<and> check_time_fields hh mi ss 0 then
                Some \<lparr>year = y, month = m, day = d, hour = hh, minute = mi, second = ss,
                      microsecond = 0, tzinfo = None\<rparr>
              else None)
         | _ \<Rightarrow> None))"

text \<open>
  The offset field of a line is what stands between the last opening parenthesis and the
  closing parenthesis that ends the line.
\<close>

definition offset_field :: "string \<Rightarrow> string option" where
  "offset_field line =
     (case rev line of
        nl # rp # r \<Rightarrow>
          (if nl = CHR 0x0A \<and> rp = CHR '')'' \<and> CHR ''('' \<in> set r then
             Some (rev (takeWhile (\<lambda>c. c \<noteq> CHR ''('') r))
           else None)
      | _ \<Rightarrow> None)"

text \<open>The signed four-digit rendering \<open>\<plusminus>HHMM\<close> of an offset in seconds.\<close>

definition hhmm :: "int \<Rightarrow> string" where
  "hhmm x =
     (if x < 0 then CHR ''-'' else CHR ''+'') #
     zero_pad 2 (nat \<bar>x\<bar> div 3600) @ zero_pad 2 (nat \<bar>x\<bar> mod 3600 div 60)"

text \<open>Reading an offset back, as \<open>%z\<close> does: \<open>\<plusminus>HHMM\<close> or \<open>\<plusminus>HHMMSS\<close>, in seconds.\<close>

definition strptime_offset :: "string \<Rightarrow> int option" where
  "strptime_offset s =
     (case s of
        [] \<Rightarrow> None
      | sg # ds \<Rightarrow>
          (if (sg \<noteq> CHR ''+'' \<and> sg \<noteq> CHR ''-'') \<or> (length ds \<noteq> 4 \<and> length ds \<noteq> 6) then None
           else
             (case (int_of_str (take 2 ds), int_of_str (take 2 (drop 2 ds)),
                    (if length ds = 4 then Some 0 else int_of_str (drop 4 ds))) of
                (Some hh, Some mm, Some ss) \<Rightarrow>
                  (if mm \<le> 59 \<and> ss \<le> 59 then
                     Some ((if sg = CHR ''-'' then - 1 else 1) * int (hh * 3600 + mm * 60 + ss))
                   else None)
              | _ \<Rightarrow> None)))"

text \<open>The instant a line denotes: its local date and time at its offset.\<close>

definition parse_line :: "string \<Rightarrow> datetime option" where
  "parse_line line =
     (case strptime_datetime (take 19 line) of
        None \<Rightarrow> None
      | Some dt \<Rightarrow>
          (case offset_field line of
             None \<Rightarrow> None
           | Some f \<Rightarrow>
               (case strptime_offset f of
                  None \<Rightarrow> None
                | Some off \<Rightarrow> Some (dt\<lparr>tzinfo := Some \<lparr>utcoffset = off, tzname = []\<rparr>\<rparr>))))"

subsection \<open>What the program wrote\<close>

text \<open>The text an invocation put on standard output, all writes together.\<close>

definition stdout_text :: "outcome \<Rightarrow> string" where
  "stdout_text out =
     concat (map (\<lambda>e. case e of Stdout_write s \<Rightarrow> s | _ \<Rightarrow> []) (effects out))"

text \<open>
  The value of \<open>now.strftime(FMT)\<close> written out, for a reading \<open>dt\<close> with the zone
  \<open>tz\<close> attached (lemma \<open>strftime_FMT\<close> below), and its date and time portion.
\<close>

definition date_time_text :: "datetime \<Rightarrow> string" where
  "date_time_text dt =
     zero_pad 4 (year dt) @ ''-'' @ zero_pad 2 (month dt) @ ''-'' @ zero_pad 2 (day dt) @ '' '' @
     zero_pad 2 (hour dt) @ '':'' @ zero_pad 2 (minute dt) @ '':'' @ zero_pad 2 (second dt)"

definition render :: "datetime \<Rightarrow> timezone \<Rightarrow> string" where
  "render dt tz =
     date_time_text dt @ '' '' @ tzname tz @ '' ('' @ format_offset (Some (utcoffset tz)) @ '')''"

text \<open>The naive datetime \<open>datetime(1970, 1, 1)\<close>, from which whole seconds are counted.\<close>

definition epoch :: datetime where
  "epoch = \<lparr>year = 1970, month = 1, day = 1, hour = 0, minute = 0, second = 0,
            microsecond = 0, tzinfo = None\<rparr>"

subsection \<open>Example invocations\<close>

definition reading :: "nat \<Rightarrow> nat \<Rightarrow> nat \<Rightarrow> nat \<Rightarrow> nat \<Rightarrow> nat \<Rightarrow> nat \<Rightarrow> datetime" where
  "reading y m d hh mi ss us =
     \<lparr>year = y, month = m, day = d, hour = hh, minute = mi, second = ss,
      microsecond = us, tzinfo = None\<rparr>"

definition host_at :: "datetime \<Rightarrow> int \<Rightarrow> string \<Rightarrow> host" where
  "host_at dt off name =
     \<lparr>wallclock = Inr dt, localzone = Inr \<lparr>utcoffset = off, tzname = name\<rparr>,
      stdout = Accepting, argv = [''current_time.py''], environ = [], files = []\<rparr>"

text \<open>The example of the specification: 14:07:42 on 15 March 2024, Pacific Daylight Time.\<close>

definition dt_example :: datetime where
  "dt_example = reading 2024 3 15 14 7 42 123456"

definition host_pdt :: host where
  "host_pdt = host_at dt_example (- 25200) ''PDT''"


text \<open>A platform that reports full zone names, as Windows does.\<close>

definition host_windows :: host where
  "host_windows = host_at dt_example (- 25200) ''Pacific Daylight Time''"

text \<open>
  Zones whose offset is not a whole number of minutes: \<open>TZ=XYZ-1:02:03\<close>,
  \<open>TZ=MMT0:44:30\<close> (44 minutes 30 seconds west, Monrovia mean time), and a local mean
  time of 19 minutes 32 seconds east on a platform that reports no name.
\<close>

definition host_xyz :: host where
  "host_xyz = host_at dt_example 3723 ''XYZ''"

definition host_mmt :: host where
  "host_mmt = host_at dt_example (- 2670) ''MMT''"

definition host_noname :: host where
  "host_noname = host_at dt_example 1172 []"

text \<open>No zone name, offset zero.\<close>

definition host_noname_utc :: host where
  "host_noname_utc = host_at dt_example 0 []"

text \<open>
  Two readings around the end of daylight saving time on 3 November 2024 in New York:
  01:59:59.9 at -04:00, and two tenths of a second later 01:00:00.1 at -05:00.
\<close>

definition dt_before_fallback :: datetime where
  "dt_before_fallback = reading 2024 11 3 1 59 59 900000"

definition dt_after_fallback :: datetime where
  "dt_after_fallback = reading 2024 11 3 1 0 0 100000"

definition host_edt :: host where
  "host_edt = host_at dt_before_fallback (- 14400) ''EDT''"

definition host_est :: host where
  "host_est = host_at dt_after_fallback (- 18000) ''EST''"

text \<open>A platform whose clock call fails.\<close>

definition host_clock_fault :: host where
  "host_clock_fault = host_pdt\<lparr>wallclock := Inl OSError\<rparr>"




section \<open>Properties\<close>

subsection \<open>Digits: width, characters, reading back\<close>

lemma digit_char_is_digit: "d < 10 \<Longrightarrow> is_digit (digit_char d)"
proof -
  assume "d < 10"
  then have "d \<in> {0,1,2,3,4,5,6,7,8,9}" by auto
  then show ?thesis by (auto simp: is_digit_def digit_char_def)
qed

lemma digit_val_digit_char: "d < 10 \<Longrightarrow> digit_val (digit_char d) = d"
proof -
  assume "d < 10"
  then have "d \<in> {0,1,2,3,4,5,6,7,8,9}" by auto
  then show ?thesis by (auto simp: digit_val_def digit_char_def)
qed

lemma str_nat_digits: "c \<in> set (str_nat n) \<Longrightarrow> is_digit c"
proof (induction n rule: str_nat.induct)
  case (1 n)
  show ?case
  proof (cases "n < 10")
    case True
    with "1.prems" show ?thesis by (simp add: str_nat.simps [of n] digit_char_is_digit)
  next
    case False
    with "1.prems" "1.IH" show ?thesis
      by (auto simp: str_nat.simps [of n] digit_char_is_digit)
  qed
qed

lemma str_nat_length: "n < 10 ^ Suc k \<Longrightarrow> length (str_nat n) \<le> Suc k"
proof (induction k arbitrary: n)
  case 0
  then show ?case by (simp add: str_nat.simps [of n])
next
  case (Suc k)
  show ?case
  proof (cases "n < 10")
    case True
    then show ?thesis by (simp add: str_nat.simps [of n])
  next
    case False
    from Suc.prems have "n div 10 < 10 ^ Suc k" by simp
    then have "length (str_nat (n div 10)) \<le> Suc k" by (rule Suc.IH)
    with False show ?thesis by (simp add: str_nat.simps [of n])
  qed
qed

lemma str_nat_nonempty: "str_nat n \<noteq> []"
  by (simp add: str_nat.simps [of n])

lemma zero_pad_length: "n < 10 ^ Suc k \<Longrightarrow> length (zero_pad (Suc k) n) = Suc k"
  using str_nat_length [of n k] by (simp add: zero_pad_def)

lemma zero_pad_digits: "c \<in> set (zero_pad w n) \<Longrightarrow> is_digit c"
proof -
  assume c: "c \<in> set (zero_pad w n)"
  have z: "is_digit (CHR ''0'')" by (simp add: is_digit_def)
  from c show ?thesis by (auto simp: zero_pad_def str_nat_digits z)
qed

lemma read_digits_append:
  "read_digits (xs @ ys) acc = (case read_digits xs acc of None \<Rightarrow> None | Some a \<Rightarrow> read_digits ys a)"
  by (induction xs arbitrary: acc) auto

lemma read_digits_str_nat: "read_digits (str_nat n) acc = Some (acc * 10 ^ length (str_nat n) + n)"
proof (induction n arbitrary: acc rule: str_nat.induct)
  case (1 n)
  show ?case
  proof (cases "n < 10")
    case True
    then show ?thesis
      by (simp add: str_nat.simps [of n] digit_char_is_digit digit_val_digit_char)
  next
    case False
    then have IH: "read_digits (str_nat (n div 10)) acc = Some (acc * 10 ^ length (str_nat (n div 10)) + n div 10)"
      using "1.IH" by simp
    have d: "n mod 10 < 10" by simp
    show ?thesis using False
      by (simp add: str_nat.simps [of n] read_digits_append IH digit_char_is_digit [OF d] digit_val_digit_char [OF d] algebra_simps)
  qed
qed

lemma read_digits_zeros: "read_digits (replicate k (CHR ''0'') @ s) 0 = read_digits s 0"
  by (induction k) (auto simp: is_digit_def digit_val_def)

lemma int_of_str_zero_pad: "int_of_str (zero_pad w n) = Some n"
  by (simp add: int_of_str_def zero_pad_def str_nat_nonempty read_digits_zeros read_digits_str_nat)


subsection \<open>The formatted string\<close>

text \<open>
  The scanner leaves the platform a format in which the only directives are those of the
  date and time and the doubled percent signs of the zone name, so formatting never fails
  and the name comes out as the platform reported it.
\<close>

lemma zero_pad_no_percent: "CHR ''%'' \<notin> set (zero_pad w n)"
  using zero_pad_digits [of "CHR ''%''" w n] by (auto simp: is_digit_def)

lemma format_offset_no_percent: "CHR ''%'' \<notin> set (format_offset off)"
  by (cases off) (auto simp: format_offset_def Let_def zero_pad_no_percent)

lemma time_strftime_plain:
  "CHR ''%'' \<notin> set s \<Longrightarrow>
   time_strftime (s @ r) tt = (case time_strftime r tt of Inl e \<Rightarrow> Inl e | Inr x \<Rightarrow> Inr (s @ x))"
  by (induction s) (auto split: sum.splits)

lemma time_strftime_escaped:
  "time_strftime (escape_percent s @ r) tt =
     (case time_strftime r tt of Inl e \<Rightarrow> Inl e | Inr x \<Rightarrow> Inr (s @ x))"
  by (induction s) (auto simp: escape_percent_def directive_def split: sum.splits)

lemma strftime_FMT: "strftime (dt\<lparr>tzinfo := Some tz\<rparr>) FMT = Inr (render dt tz)"
proof -
  have "wrap_scan (dt\<lparr>tzinfo := Some tz\<rparr>) FMT =
      ''%Y-%m-%d %H:%M:%S '' @ escape_percent (tzname tz) @ '' ('' @ format_offset (Some (utcoffset tz)) @ '')''"
    by (simp add: FMT_def Zreplace_def dt_utcoffset_def)
  moreover have "time_strftime ('')'') tt = Inr '')''" for tt by simp
  ultimately show ?thesis
    by (simp add: strftime_def time_strftime_escaped time_strftime_plain format_offset_no_percent
        directive_def timetuple_def render_def date_time_text_def)
qed

lemma main_prints:
  "wallclock h = Inr dt \<Longrightarrow> localzone h = Inr tz \<Longrightarrow> main h = print (stdout h) (render dt tz)"
  by (simp add: main_def astimezone_def strftime_FMT)

lemma run_script_prints:
  "wallclock h = Inr dt \<Longrightarrow> localzone h = Inr tz \<Longrightarrow> stdout h = Accepting \<Longrightarrow>
   run_script h = \<lparr>effects = [Stdout_write (render dt tz @ [CHR 0x0A])], exit_status = 0\<rparr>"
  by (simp add: run_script_def main_prints print_def)

subsection \<open>Matching the pattern\<close>

lemma re_match_times:
  "length u = n \<Longrightarrow> (\<And>c. c \<in> set u \<Longrightarrow> p c) \<Longrightarrow> re_match r v \<Longrightarrow> re_match ((p, Times n) # r) (u @ v)"
  by (induction u arbitrary: n) auto

lemma re_match_star:
  "(\<And>c. c \<in> set u \<Longrightarrow> p c) \<Longrightarrow> re_match r v \<Longrightarrow> re_match ((p, Star) # r) (u @ v)"
  by (induction u) auto

lemma re_match_lit: "re_match r v \<Longrightarrow> re_match (lit c # r) (c # v)"
  by (simp add: lit_def)

lemma zero_pad_width: "0 < w \<Longrightarrow> n < 10 ^ w \<Longrightarrow> length (zero_pad w n) = w"
  using zero_pad_length [of n "w - 1"] by simp

lemma re_match_digits:
  "0 < w \<Longrightarrow> n < 10 ^ w \<Longrightarrow> re_match r v \<Longrightarrow> re_match (digits w # r) (zero_pad w n @ v)"
  unfolding digits_def
  by (rule re_match_times) (auto simp: zero_pad_width zero_pad_digits)

lemma abs_mod_60: "(nat \<bar>x\<bar> mod 60 = 0) = (x mod 60 = 0)"
proof -
  have "int (nat \<bar>x\<bar> mod 60) = \<bar>x\<bar> mod 60" by (simp add: zmod_int)
  moreover have "(\<bar>x\<bar> mod 60 = 0) = (x mod 60 = 0)" by presburger
  ultimately show ?thesis by (metis of_nat_eq_0_iff)
qed

lemma format_offset_minutes:
  "x mod 60 = 0 \<Longrightarrow> format_offset (Some x) = hhmm x"
  using abs_mod_60 [of x] by (simp add: format_offset_def hhmm_def Let_def)

lemma format_offset_seconds:
  "x mod 60 \<noteq> 0 \<Longrightarrow> format_offset (Some x) = hhmm x @ zero_pad 2 (nat \<bar>x\<bar> mod 60)"
  using abs_mod_60 [of x] by (simp add: format_offset_def hhmm_def Let_def)

lemma hhmm_shape:
  assumes "- 86400 < x" "x < 86400"
  shows "\<exists>sg ds. hhmm x = sg # ds \<and> (sg = CHR ''+'' \<or> sg = CHR ''-'') \<and> length ds = 4 \<and>
           (\<forall>c \<in> set ds. is_digit c)"
proof -
  let ?a = "nat \<bar>x\<bar>"
  have hh: "?a div 3600 < 10 ^ 2" using assms by simp
  have mm: "?a mod 3600 div 60 < 10 ^ 2" by simp
  have "length (zero_pad 2 (?a div 3600) @ zero_pad 2 (?a mod 3600 div 60)) = 4"
    using zero_pad_width [OF _ hh] zero_pad_width [OF _ mm] by simp
  then show ?thesis by (auto simp: hhmm_def zero_pad_digits)
qed

lemma re_match_hhmm:
  assumes "- 86400 < x" "x < 86400" "re_match r v"
  shows "re_match (((\<lambda>c. c = CHR ''+'' \<or> c = CHR ''-''), Times 1) # digits 4 # r) (hhmm x @ v)"
proof -
  from hhmm_shape [OF assms(1,2)] obtain sg ds where
    e: "hhmm x = sg # ds" and sg: "sg = CHR ''+'' \<or> sg = CHR ''-''" and l: "length ds = 4"
    and d: "\<forall>c \<in> set ds. is_digit c" by blast
  have "re_match (digits 4 # r) (ds @ v)"
    unfolding digits_def using l d assms(3) by (intro re_match_times) auto
  with sg show ?thesis by (auto simp: e)
qed

lemma render_matches:
  assumes v: "valid_datetime dt" and z: "valid_timezone tz"
    and m: "utcoffset tz mod 60 = 0" and s: "\<forall>c \<in> set (tzname tz). \<not> is_space c"
  shows "re_match output_pattern (render dt tz @ [CHR 0x0A])"
proof -
  have y: "year dt < 10 ^ 4" and mo: "month dt < 10 ^ 2" and d: "day dt < 10 ^ 2"
    and h: "hour dt < 10 ^ 2" and mi: "minute dt < 10 ^ 2" and se: "second dt < 10 ^ 2"
    using v by (auto simp: valid_datetime_def check_date_fields_def check_time_fields_def
        days_in_month_def nth_Cons' split: if_splits)
  have tail: "re_match [lit CHR '')'', lit CHR 0x0A, ((\<lambda>c. c = CHR 0x0A), Optional)] ('')'' @ [CHR 0x0A])"
    by (simp add: lit_def)
  have off: "re_match [((\<lambda>c. c = CHR ''+'' \<or> c = CHR ''-''), Times 1), digits 4,
       lit CHR '')'', lit CHR 0x0A, ((\<lambda>c. c = CHR 0x0A), Optional)]
      (format_offset (Some (utcoffset tz)) @ '')'' @ [CHR 0x0A])"
    using z re_match_hhmm [OF _ _ tail, of "utcoffset tz"]
    by (simp add: format_offset_minutes [OF m] valid_timezone_def)
  have name: "re_match [((\<lambda>c. \<not> is_space c), Star), lit CHR '' '', lit CHR ''('',
       ((\<lambda>c. c = CHR ''+'' \<or> c = CHR ''-''), Times 1), digits 4,
       lit CHR '')'', lit CHR 0x0A, ((\<lambda>c. c = CHR 0x0A), Optional)]
      (tzname tz @ CHR '' '' # CHR ''('' # format_offset (Some (utcoffset tz)) @ '')'' @ [CHR 0x0A])"
    using s off by (intro re_match_star re_match_lit) auto
  have "re_match output_pattern
     (zero_pad 4 (year dt) @ CHR ''-'' # zero_pad 2 (month dt) @ CHR ''-'' # zero_pad 2 (day dt) @
      CHR '' '' # zero_pad 2 (hour dt) @ CHR '':'' # zero_pad 2 (minute dt) @ CHR '':'' #
      zero_pad 2 (second dt) @ CHR '' '' #
      tzname tz @ CHR '' '' # CHR ''('' # format_offset (Some (utcoffset tz)) @ '')'' @ [CHR 0x0A])"
    unfolding output_pattern_def
    by (intro re_match_digits re_match_lit name y mo d h mi se) simp_all
  then show ?thesis by (simp add: render_def date_time_text_def)
qed

subsection \<open>Closed forms for two and four digits\<close>

lemma str_nat_thousands: "n < 10000 \<Longrightarrow> str_nat (n div 1000) = [digit_char (n div 1000)]"
proof -
  assume n: "n < 10000"
  have "n div 1000 < 10" using n by (simp add: div_less_iff_less_mult)
  then show ?thesis by (simp add: str_nat.simps [of "n div 1000"])
qed

lemma str_nat_hundreds: "n < 10000 \<Longrightarrow> str_nat (n div 100) = (if n < 1000 then [] else [digit_char (n div 1000)]) @ [digit_char (n div 100 mod 10)]"
proof -
  assume n: "n < 10000"
  have a: "n div 100 div 10 = n div 1000" by (simp add: div_mult2_eq)
  have b: "(n div 100 < 10) = (n < 1000)" by (simp add: div_less_iff_less_mult)
  show ?thesis 
    unfolding str_nat.simps [of "n div 100"] a b using str_nat_thousands [OF n] by auto
qed

lemma zero_pad_2: "n < 100 \<Longrightarrow> zero_pad 2 n = [digit_char (n div 10), digit_char (n mod 10)]"
proof (cases "n < 10")
  case True
  then show ?thesis by (simp add: zero_pad_def str_nat.simps [of n] digit_char_def)
next
  case False
  assume "n < 100"
  with False have "n div 10 < 10" by simp
  with False show ?thesis
    by (simp add: zero_pad_def str_nat.simps [of n] str_nat.simps [of "n div 10"])
qed

lemma zero_pad_4:
  "n < 10000 \<Longrightarrow>
   zero_pad 4 n = [digit_char (n div 1000), digit_char (n div 100 mod 10),
                   digit_char (n div 10 mod 10), digit_char (n mod 10)]"
proof -
  assume n: "n < 10000"
  have a: "n div 10 div 10 = n div 100" by (simp add: div_mult2_eq)
  have b: "(n div 10 < 10) = (n < 100)" by (simp add: div_less_iff_less_mult)
  have z: "digit_char 0 = CHR ''0''" by (simp add: digit_char_def)
  have rep: "replicate 3 c = [c, c, c]" "replicate 2 c = [c, c]" for c :: char
    by (simp_all add: numeral_3_eq_3 numeral_2_eq_2)
  have s1: "str_nat (n div 10) = (if n < 100 then [] else str_nat (n div 100)) @ [digit_char (n div 10 mod 10)]"
    unfolding str_nat.simps [of "n div 10"] a b by simp
  have s0: "str_nat n = (if n < 10 then [] else str_nat (n div 10)) @ [digit_char (n mod 10)]"
    unfolding str_nat.simps [of n] by simp
  show ?thesis
    unfolding zero_pad_def s0 s1 str_nat_hundreds [OF n] using n by (simp add: z rep)
qed

subsection \<open>Parsing the date and time back\<close>

lemma valid_datetime_bounds:
  assumes "valid_datetime dt"
  shows "year dt < 10 ^ 4" "month dt < 10 ^ 2" "day dt < 10 ^ 2"
    "hour dt < 10 ^ 2" "minute dt < 10 ^ 2" "second dt < 10 ^ 2"
  using assms by (auto simp: valid_datetime_def check_date_fields_def check_time_fields_def
        days_in_month_def nth_Cons' split: if_splits)

lemma fields_text:
  assumes "length y = 4" "length m = 2" "length d = 2" "length hh = 2" "length mi = 2" "length ss = 2"
  defines "p \<equiv> y @ CHR ''-'' # m @ CHR ''-'' # d @ CHR '' '' # hh @ CHR '':'' # mi @ CHR '':'' # ss"
  shows "length p = 19" "p ! 4 = CHR ''-''" "p ! 7 = CHR ''-''" "p ! 10 = CHR '' ''"
    "p ! 13 = CHR '':''" "p ! 16 = CHR '':''"
    "take 4 p = y" "take 2 (drop 5 p) = m" "take 2 (drop 8 p) = d" "take 2 (drop 11 p) = hh"
    "take 2 (drop 14 p) = mi" "take 2 (drop 17 p) = ss"
proof -
  obtain y1 y2 y3 y4 where y: "y = [y1, y2, y3, y4]"
    using assms(1) by (auto simp: length_Suc_conv numeral_eq_Suc)
  obtain m1 m2 where m: "m = [m1, m2]" using assms(2) by (auto simp: length_Suc_conv numeral_eq_Suc)
  obtain d1 d2 where d: "d = [d1, d2]" using assms(3) by (auto simp: length_Suc_conv numeral_eq_Suc)
  obtain h1 h2 where h: "hh = [h1, h2]" using assms(4) by (auto simp: length_Suc_conv numeral_eq_Suc)
  obtain i1 i2 where i: "mi = [i1, i2]" using assms(5) by (auto simp: length_Suc_conv numeral_eq_Suc)
  obtain s1 s2 where s: "ss = [s1, s2]" using assms(6) by (auto simp: length_Suc_conv numeral_eq_Suc)
  show "length p = 19" "p ! 4 = CHR ''-''" "p ! 7 = CHR ''-''" "p ! 10 = CHR '' ''"
    "p ! 13 = CHR '':''" "p ! 16 = CHR '':''"
    "take 4 p = y" "take 2 (drop 5 p) = m" "take 2 (drop 8 p) = d" "take 2 (drop 11 p) = hh"
    "take 2 (drop 14 p) = mi" "take 2 (drop 17 p) = ss"
    by (simp_all add: p_def y m d h i s)
qed

lemma date_time_text_length: "valid_datetime dt \<Longrightarrow> length (date_time_text dt) = 19"
  using valid_datetime_bounds [of dt] by (simp add: date_time_text_def zero_pad_width)

lemma strptime_date_time_text:
  assumes v: "valid_datetime dt"
  shows "strptime_datetime (date_time_text dt) = Some (dt\<lparr>microsecond := 0, tzinfo := None\<rparr>)"
proof -
  note b = valid_datetime_bounds [OF v]
  have p: "date_time_text dt = zero_pad 4 (year dt) @ CHR ''-'' # zero_pad 2 (month dt) @ CHR ''-'' #
      zero_pad 2 (day dt) @ CHR '' '' # zero_pad 2 (hour dt) @ CHR '':'' # zero_pad 2 (minute dt) @
      CHR '':'' # zero_pad 2 (second dt)"
    by (simp add: date_time_text_def)
  note f = fields_text [of "zero_pad 4 (year dt)" "zero_pad 2 (month dt)" "zero_pad 2 (day dt)"
      "zero_pad 2 (hour dt)" "zero_pad 2 (minute dt)" "zero_pad 2 (second dt)", folded p]
  have l: "length (zero_pad 4 (year dt)) = 4" "length (zero_pad 2 (month dt)) = 2"
    "length (zero_pad 2 (day dt)) = 2" "length (zero_pad 2 (hour dt)) = 2"
    "length (zero_pad 2 (minute dt)) = 2" "length (zero_pad 2 (second dt)) = 2"
    using b by (simp_all add: zero_pad_width)
  have c: "check_date_fields (year dt) (month dt) (day dt)"
    "check_time_fields (hour dt) (minute dt) (second dt) 0"
    using v by (simp_all add: valid_datetime_def check_time_fields_def)
  show ?thesis
    unfolding strptime_datetime_def
    by (simp add: f [OF l] int_of_str_zero_pad c)
qed

lemma strptime_render:
  "valid_datetime dt \<Longrightarrow>
   strptime_datetime (take 19 (render dt tz @ [CHR 0x0A])) = Some (dt\<lparr>microsecond := 0, tzinfo := None\<rparr>)"
  by (simp add: render_def date_time_text_length strptime_date_time_text)

subsection \<open>Parsing the offset back\<close>

lemma hhmm_parts:
  assumes "- 86400 < x" "x < 86400"
  shows "length (zero_pad 2 (nat \<bar>x\<bar> div 3600)) = 2" "length (zero_pad 2 (nat \<bar>x\<bar> mod 3600 div 60)) = 2"
    "length (zero_pad 2 (nat \<bar>x\<bar> mod 60)) = 2"
proof -
  have "nat \<bar>x\<bar> div 3600 < 10 ^ 2" using assms by simp
  then show "length (zero_pad 2 (nat \<bar>x\<bar> div 3600)) = 2" by (simp add: zero_pad_width)
  have "nat \<bar>x\<bar> mod 3600 div 60 < 10 ^ 2" by simp
  then show "length (zero_pad 2 (nat \<bar>x\<bar> mod 3600 div 60)) = 2" by (simp add: zero_pad_width)
  have "nat \<bar>x\<bar> mod 60 < 10 ^ 2" by simp
  then show "length (zero_pad 2 (nat \<bar>x\<bar> mod 60)) = 2" by (simp add: zero_pad_width)
qed

lemma length_2_conv: "length xs = 2 \<Longrightarrow> \<exists>a b. xs = [a, b]"
  by (auto simp: length_Suc_conv numeral_2_eq_2)

lemma hms_sum: "(a::nat) div 3600 * 3600 + a mod 3600 div 60 * 60 + a mod 60 = a"
proof -
  have "a mod 3600 mod 60 = a mod 60" by (simp add: mod_mod_cancel)
  then have "a mod 3600 div 60 * 60 + a mod 60 = a mod 3600"
    by (metis div_mult_mod_eq)
  then show ?thesis by (metis add.assoc div_mult_mod_eq)
qed

lemma strptime_offset_hhmm:
  assumes "int_of_str [a, b] = Some hh" "int_of_str [c, d] = Some mm" "mm \<le> 59"
    "sg = CHR ''+'' \<or> sg = CHR ''-''"
  shows "strptime_offset [sg, a, b, c, d] =
     Some ((if sg = CHR ''-'' then - 1 else 1) * int (hh * 3600 + mm * 60 + 0))"
  using assms by (auto simp: strptime_offset_def)

lemma strptime_offset_hhmmss:
  assumes "int_of_str [a, b] = Some hh" "int_of_str [c, d] = Some mm" "int_of_str [e, f] = Some ss"
    "mm \<le> 59" "ss \<le> 59" "sg = CHR ''+'' \<or> sg = CHR ''-''"
  shows "strptime_offset [sg, a, b, c, d, e, f] =
     Some ((if sg = CHR ''-'' then - 1 else 1) * int (hh * 3600 + mm * 60 + ss))"
  using assms by (auto simp: strptime_offset_def)

lemma strptime_format_offset:
  assumes "- 86400 < x" "x < 86400"
  shows "strptime_offset (format_offset (Some x)) = Some x"
proof -
  define a where "a = nat \<bar>x\<bar>"
  define sg where "sg = (if x < 0 then CHR ''-'' else CHR ''+'')"
  note l = hhmm_parts [OF assms, folded a_def]
  obtain h1 h2 where h: "zero_pad 2 (a div 3600) = [h1, h2]"
    using length_2_conv [OF l(1)] by blast
  obtain m1 m2 where m: "zero_pad 2 (a mod 3600 div 60) = [m1, m2]"
    using length_2_conv [OF l(2)] by blast
  obtain s1 s2 where s: "zero_pad 2 (a mod 60) = [s1, s2]"
    using length_2_conv [OF l(3)] by blast
  have ih: "int_of_str [h1, h2] = Some (a div 3600)"
    using int_of_str_zero_pad [of 2 "a div 3600"] by (simp add: h)
  have im: "int_of_str [m1, m2] = Some (a mod 3600 div 60)"
    using int_of_str_zero_pad [of 2 "a mod 3600 div 60"] by (simp add: m)
  have iss: "int_of_str [s1, s2] = Some (a mod 60)"
    using int_of_str_zero_pad [of 2 "a mod 60"] by (simp add: s)
  have "a mod 3600 div 60 < 60" by (simp add: div_less_iff_less_mult)
  then have mm: "a mod 3600 div 60 \<le> 59" by linarith
  have ss: "a mod 60 \<le> 59" using mod_less_divisor [of 60 a] by linarith
  have sgn: "sg = CHR ''+'' \<or> sg = CHR ''-''" by (simp add: sg_def)
  have signed: "(if sg = CHR ''-'' then - 1 else 1) * int a = x"
    by (simp add: sg_def a_def)
  have f: "format_offset (Some x) =
      (if a mod 60 = 0 then [sg, h1, h2, m1, m2] else [sg, h1, h2, m1, m2, s1, s2])"
    by (simp add: format_offset_def Let_def a_def [symmetric] sg_def [symmetric] h m s)
  show ?thesis
  proof (cases "a mod 60 = 0")
    case True
    have "strptime_offset [sg, h1, h2, m1, m2] =
        Some ((if sg = CHR ''-'' then - 1 else 1) * int (a div 3600 * 3600 + a mod 3600 div 60 * 60 + a mod 60))"
      unfolding True by (rule strptime_offset_hhmm [OF ih im mm sgn])
    then show ?thesis unfolding hms_sum signed f using True by simp
  next
    case False
    have "strptime_offset [sg, h1, h2, m1, m2, s1, s2] =
        Some ((if sg = CHR ''-'' then - 1 else 1) * int (a div 3600 * 3600 + a mod 3600 div 60 * 60 + a mod 60))"
      by (rule strptime_offset_hhmmss [OF ih im iss mm ss sgn])
    then show ?thesis unfolding hms_sum signed f using False by simp
  qed
qed

lemma format_offset_no_paren: "CHR ''('' \<notin> set (format_offset off)"
proof (cases off)
  case None
  then show ?thesis by (simp add: format_offset_def)
next
  case (Some x)
  have "CHR ''('' \<notin> set (zero_pad w n)" for w n
    using zero_pad_digits [of "CHR ''(''" w n] by (auto simp: is_digit_def)
  then show ?thesis using Some by (auto simp: format_offset_def Let_def)
qed

lemma offset_field_render:
  "offset_field (render dt tz @ [CHR 0x0A]) = Some (format_offset (Some (utcoffset tz)))"
proof -
  let ?f = "format_offset (Some (utcoffset tz))"
  have r: "rev (render dt tz @ [CHR 0x0A]) =
       CHR 0x0A # CHR '')'' # rev ?f @ CHR ''('' # rev (date_time_text dt @ '' '' @ tzname tz @ '' '')"
    by (simp add: render_def)
  have t: "takeWhile (\<lambda>c. c \<noteq> CHR ''('') (rev ?f @ CHR ''('' # u) = rev ?f" for u
    using format_offset_no_paren [of "Some (utcoffset tz)"] by (subst takeWhile_append2) auto
  show ?thesis
    unfolding offset_field_def r by (simp add: t)
qed

lemma parse_line_render:
  assumes "valid_datetime dt" "valid_timezone tz"
  shows "parse_line (render dt tz @ [CHR 0x0A]) =
     Some (dt\<lparr>microsecond := 0, tzinfo := Some \<lparr>utcoffset = utcoffset tz, tzname = []\<rparr>\<rparr>)"
proof -
  have "strptime_offset (format_offset (Some (utcoffset tz))) = Some (utcoffset tz)"
    using assms(2) by (simp add: strptime_format_offset valid_timezone_def)
  then show ?thesis
    unfolding parse_line_def strptime_render [OF assms(1)] offset_field_render by simp
qed

subsection \<open>Differences and order of readings\<close>

lemma dt_sub_truncated:
  "tzinfo dt = None \<Longrightarrow> dt_sub dt (dt\<lparr>microsecond := 0, tzinfo := None\<rparr>) = Some (int (microsecond dt))"
  by (simp add: dt_sub_def dt_utcoffset_def toordinal_def day_seconds_def)

lemma dt_sub_floor:
  assumes "tzinfo dt = None" "microsecond dt \<le> 999999"
  shows "\<exists>d. dt_sub dt epoch = Some d \<and>
     dt_sub (dt\<lparr>microsecond := 0, tzinfo := None\<rparr>) epoch = Some (d div 1000000 * 1000000)"
proof -
  define k where "k = (toordinal dt - toordinal epoch) * 86400 + (day_seconds dt - day_seconds epoch)"
  have a: "dt_sub dt epoch = Some (k * 1000000 + int (microsecond dt))"
    using assms(1) by (simp add: dt_sub_def dt_utcoffset_def k_def epoch_def)
  have b: "dt_sub (dt\<lparr>microsecond := 0, tzinfo := None\<rparr>) epoch = Some (k * 1000000)"
    by (simp add: dt_sub_def dt_utcoffset_def k_def epoch_def toordinal_def day_seconds_def)
  have "(k * 1000000 + int (microsecond dt)) div 1000000 = k"
    using assms(2) by simp
  then show ?thesis using a b by simp
qed

lemma lex_le_truncated:
  "lex_le [y, m, d, hh, mi, ss, us] [y', m', d', hh', mi', ss', us'] \<Longrightarrow>
   lex_le [y, m, d, hh, mi, ss, 0] [y', m', d', hh', mi', ss', 0]"
  by auto

lemma dt_le_truncated:
  assumes le: "dt_le (a\<lparr>tzinfo := Some za\<rparr>) (b\<lparr>tzinfo := Some zb\<rparr>) = Some True"
    and ua: "microsecond a \<le> 999999" and ub: "microsecond b \<le> 999999"
    and oa: "utcoffset za' = utcoffset za" and ob: "utcoffset zb' = utcoffset zb"
  shows "dt_le (a\<lparr>microsecond := 0, tzinfo := Some za'\<rparr>) (b\<lparr>microsecond := 0, tzinfo := Some zb'\<rparr>)
         = Some True"
proof (cases "utcoffset za = utcoffset zb")
  case True
  then have "lex_le (field_tuple a) (field_tuple b)"
    using le by (simp add: dt_le_def dt_utcoffset_def field_tuple_def)
  then have "lex_le [year a, month a, day a, hour a, minute a, second a, 0]
      [year b, month b, day b, hour b, minute b, second b, 0]"
    unfolding field_tuple_def by (rule lex_le_truncated)
  then show ?thesis
    using True by (simp add: dt_le_def dt_utcoffset_def field_tuple_def oa ob)
next
  case False
  define k where "k = (toordinal a - toordinal b) * 86400 + (day_seconds a - day_seconds b)
      + (utcoffset zb - utcoffset za)"
  have "k * 1000000 + (int (microsecond a) - int (microsecond b)) \<le> 0"
    using le False
    by (simp add: dt_le_def dt_sub_def dt_utcoffset_def k_def toordinal_def day_seconds_def algebra_simps)
  then have "k \<le> 0" using ua ub by (cases "k \<le> 0") auto
  then have "k * 1000000 \<le> 0" by simp
  then show ?thesis
    using False
    by (simp add: dt_le_def dt_sub_def dt_utcoffset_def k_def toordinal_def day_seconds_def oa ob algebra_simps)
qed

lemma dt_le_truncated_naive:
  assumes le: "dt_le a b = Some True" and na: "tzinfo a = None" and nb: "tzinfo b = None"
  shows "dt_le (a\<lparr>microsecond := 0, tzinfo := None\<rparr>) (b\<lparr>microsecond := 0, tzinfo := None\<rparr>)
         = Some True"
proof -
  have "lex_le (field_tuple a) (field_tuple b)"
    using le na nb by (simp add: dt_le_def dt_utcoffset_def)
  then have "lex_le [year a, month a, day a, hour a, minute a, second a, 0]
      [year b, month b, day b, hour b, minute b, second b, 0]"
    unfolding field_tuple_def by (rule lex_le_truncated)
  then show ?thesis by (simp add: dt_le_def dt_utcoffset_def field_tuple_def)
qed

subsection \<open>The program on a working clock\<close>

lemma main_text:
  "wallclock h = Inr dt \<Longrightarrow> localzone h = Inr tz \<Longrightarrow> stdout h = Accepting \<Longrightarrow>
   stdout_text (run_script h) = render dt tz @ [CHR 0x0A]"
  by (simp add: run_script_prints stdout_text_def)

lemma host_at_simps:
  "wallclock (host_at dt off name) = Inr dt"
  "localzone (host_at dt off name) = Inr \<lparr>utcoffset = off, tzname = name\<rparr>"
  "stdout (host_at dt off name) = Accepting"
  by (simp_all add: host_at_def)

lemma valid_reading:
  "valid_datetime (reading y m d hh mi ss us) =
     (check_date_fields y m d \<and> check_time_fields hh mi ss us)"
  by (simp add: valid_datetime_def reading_def)

lemma render_reading:
  assumes "y < 10000" "m < 100" "d < 100" "hh < 100" "mi < 100" "ss < 100"
  shows "date_time_text (reading y m d hh mi ss us) =
     [digit_char (y div 1000), digit_char (y div 100 mod 10), digit_char (y div 10 mod 10),
      digit_char (y mod 10), CHR ''-'', digit_char (m div 10), digit_char (m mod 10), CHR ''-'',
      digit_char (d div 10), digit_char (d mod 10), CHR '' '',
      digit_char (hh div 10), digit_char (hh mod 10), CHR '':'',
      digit_char (mi div 10), digit_char (mi mod 10), CHR '':'',
      digit_char (ss div 10), digit_char (ss mod 10)]"
  using assms by (simp add: date_time_text_def reading_def zero_pad_2 zero_pad_4)

lemma date_time_text_example: "date_time_text dt_example = ''2024-03-15 14:07:42''"
  by (simp add: dt_example_def render_reading digit_char_def)

lemma valid_example: "valid_datetime dt_example"
  by (simp add: dt_example_def valid_reading check_date_fields_def check_time_fields_def
      days_in_month_def is_leap_def)

lemma text_pdt: "stdout_text (run_script host_pdt) = ''2024-03-15 14:07:42 PDT (-0700)\<newline>''"
  by (simp add: host_pdt_def main_text [OF host_at_simps] render_def date_time_text_example
      format_offset_def Let_def zero_pad_2 digit_char_def)

lemma text_windows:
  "stdout_text (run_script host_windows) = ''2024-03-15 14:07:42 Pacific Daylight Time (-0700)\<newline>''"
  by (simp add: host_windows_def main_text [OF host_at_simps] render_def date_time_text_example
      format_offset_def Let_def zero_pad_2 digit_char_def)

lemma text_xyz: "stdout_text (run_script host_xyz) = ''2024-03-15 14:07:42 XYZ (+010203)\<newline>''"
  by (simp add: host_xyz_def main_text [OF host_at_simps] render_def date_time_text_example
      format_offset_def Let_def zero_pad_2 digit_char_def)

lemma text_mmt: "stdout_text (run_script host_mmt) = ''2024-03-15 14:07:42 MMT (-004430)\<newline>''"
  by (simp add: host_mmt_def main_text [OF host_at_simps] render_def date_time_text_example
      format_offset_def Let_def zero_pad_2 digit_char_def)

lemma text_noname: "stdout_text (run_script host_noname) = ''2024-03-15 14:07:42  (+001932)\<newline>''"
  by (simp add: host_noname_def main_text [OF host_at_simps] render_def date_time_text_example
      format_offset_def Let_def zero_pad_2 digit_char_def)

lemma text_noname_utc: "stdout_text (run_script host_noname_utc) = ''2024-03-15 14:07:42  (+0000)\<newline>''"
  by (simp add: host_noname_utc_def main_text [OF host_at_simps] render_def date_time_text_example
      format_offset_def Let_def zero_pad_2 digit_char_def)

text \<open>The facts that evaluate the matcher on a given line.\<close>

lemmas pattern_eval = output_pattern_def lit_def digits_def is_digit_def is_space_def numeral_eq_Suc

section \<open>The claims\<close>

text \<open>
  C1. When the clock and the zone are read, standard output accepts the write, the zone
  name has no whitespace character and the UTC offset is a whole number of minutes, the
  program writes one line to standard output and that line matches
  \<^verbatim>\<open>^\d{4}-\d{2}-\d{2} \d{2}:\d{2}:\d{2} \S* \([+-]\d{4}\)\n$\<close>.
  The two conditions are needed: a zone name with a space in it, or an offset with
  seconds, gives a line that does not match, as the two lines after the example show.
\<close>

theorem C1_output_matches_pattern:
  assumes "wallclock h = Inr dt" "localzone h = Inr tz"
    and "valid_datetime dt" "valid_timezone tz"
    and "utcoffset tz mod 60 = 0" "list_all (\<lambda>c. \<not> is_space c) (tzname tz)"
    and acc: "stdout h = Accepting"
  shows "effects (run_script h) = [Stdout_write (stdout_text (run_script h))] \<and>
         re_match output_pattern (stdout_text (run_script h))"
proof -
  have "\<forall>c \<in> set (tzname tz). \<not> is_space c" using assms(6) by (simp add: list_all_iff)
  then have "re_match output_pattern (render dt tz @ [CHR 0x0A])"
    using assms(3-5) by (intro render_matches)
  then show ?thesis
    by (simp add: run_script_prints [OF assms(1,2) acc] stdout_text_def)
qed

text \<open>The example of the specification satisfies the hypotheses.\<close>

theorem C1_output_matches_pattern_witness:
  "stdout host_pdt = Accepting \<and>
   wallclock host_pdt = Inr dt_example \<and>
   localzone host_pdt = Inr \<lparr>utcoffset = - 25200, tzname = ''PDT''\<rparr> \<and>
   valid_datetime dt_example \<and> valid_timezone \<lparr>utcoffset = - 25200, tzname = ''PDT''\<rparr> \<and>
   (- 25200 :: int) mod 60 = 0 \<and> list_all (\<lambda>c. \<not> is_space c) ''PDT'' \<and>
   effects (run_script host_pdt) = [Stdout_write ''2024-03-15 14:07:42 PDT (-0700)\<newline>''] \<and>
   re_match output_pattern ''2024-03-15 14:07:42 PDT (-0700)\<newline>''"
proof -
  have o: "stdout host_pdt = Accepting" by (simp add: host_pdt_def host_at_simps)
  have a: "wallclock host_pdt = Inr dt_example"
    and b: "localzone host_pdt = Inr \<lparr>utcoffset = - 25200, tzname = ''PDT''\<rparr>"
    by (simp_all add: host_pdt_def host_at_simps)
  have c: "valid_timezone \<lparr>utcoffset = - 25200, tzname = ''PDT''\<rparr>"
    by (simp add: valid_timezone_def)
  have d: "utcoffset \<lparr>utcoffset = - 25200, tzname = ''PDT''\<rparr> mod 60 = 0" by simp
  have e: "list_all (\<lambda>c. \<not> is_space c) (tzname \<lparr>utcoffset = - 25200, tzname = ''PDT''\<rparr>)"
    by (simp add: is_space_def)
  from C1_output_matches_pattern [OF a b valid_example c d e o] a b c e o valid_example
  show ?thesis by (simp add: text_pdt)
qed

text \<open>
  On a platform that names the zone \<open>Pacific Daylight Time\<close>, and in a zone one hour,
  two minutes and three seconds east of UTC, the printed line does not match the pattern.
\<close>

theorem C1_counterexample:
  "stdout_text (run_script host_windows) = ''2024-03-15 14:07:42 Pacific Daylight Time (-0700)\<newline>'' \<and>
   \<not> re_match output_pattern (stdout_text (run_script host_windows)) \<and>
   stdout_text (run_script host_xyz) = ''2024-03-15 14:07:42 XYZ (+010203)\<newline>'' \<and>
   \<not> re_match output_pattern (stdout_text (run_script host_xyz))"
  unfolding text_windows text_xyz by (simp add: pattern_eval)

lemma hhmm_length: "- 86400 < x \<Longrightarrow> x < 86400 \<Longrightarrow> length (hhmm x) = 5"
  using hhmm_parts [of x] by (simp add: hhmm_def)

lemma take_date_time:
  "valid_datetime dt \<Longrightarrow> take 19 (render dt tz @ [CHR 0x0A]) = date_time_text dt"
  by (simp add: render_def date_time_text_length)

text \<open>
  C2. On a run that reads clock and zone and whose standard output accepts the write,
  the first nineteen characters of the printed line are the year in four digits and
  month, day, hour, minute and second in two digits each, zero-padded, the hour at most
  23. The parenthesised field is the offset of the attached zone as sign, two digits of
  hours and two of minutes, followed by two digits of seconds when the offset is not a
  whole number of minutes; read back, the field is the offset of the attached zone. So
  the field is the four-digit \<open>\<plusminus>HHMM\<close> exactly for offsets in whole minutes.
\<close>

theorem C2_fields_and_offset:
  assumes "wallclock h = Inr dt" "localzone h = Inr tz"
    and "valid_datetime dt" "valid_timezone tz"
    and acc: "stdout h = Accepting"
  shows "take 19 (stdout_text (run_script h)) =
           zero_pad 4 (year dt) @ ''-'' @ zero_pad 2 (month dt) @ ''-'' @ zero_pad 2 (day dt) @ '' '' @
           zero_pad 2 (hour dt) @ '':'' @ zero_pad 2 (minute dt) @ '':'' @ zero_pad 2 (second dt) \<and>
         length (zero_pad 4 (year dt)) = 4 \<and> length (zero_pad 2 (month dt)) = 2 \<and>
         length (zero_pad 2 (day dt)) = 2 \<and> length (zero_pad 2 (hour dt)) = 2 \<and>
         length (zero_pad 2 (minute dt)) = 2 \<and> length (zero_pad 2 (second dt)) = 2 \<and>
         hour dt \<le> 23 \<and>
         offset_field (stdout_text (run_script h)) =
           Some (if utcoffset tz mod 60 = 0 then hhmm (utcoffset tz)
                 else hhmm (utcoffset tz) @ zero_pad 2 (nat \<bar>utcoffset tz\<bar> mod 60)) \<and>
         length (hhmm (utcoffset tz)) = 5 \<and>
         strptime_offset
           (if utcoffset tz mod 60 = 0 then hhmm (utcoffset tz)
            else hhmm (utcoffset tz) @ zero_pad 2 (nat \<bar>utcoffset tz\<bar> mod 60)) = Some (utcoffset tz)"
proof -
  note t = main_text [OF assms(1,2) acc]
  note b = valid_datetime_bounds [OF assms(3)]
  have z: "- 86400 < utcoffset tz" "utcoffset tz < 86400"
    using assms(4) by (simp_all add: valid_timezone_def)
  have f: "format_offset (Some (utcoffset tz)) =
      (if utcoffset tz mod 60 = 0 then hhmm (utcoffset tz)
       else hhmm (utcoffset tz) @ zero_pad 2 (nat \<bar>utcoffset tz\<bar> mod 60))"
    by (simp add: format_offset_minutes format_offset_seconds)
  have 1: "take 19 (stdout_text (run_script h)) =
           zero_pad 4 (year dt) @ ''-'' @ zero_pad 2 (month dt) @ ''-'' @ zero_pad 2 (day dt) @ '' '' @
           zero_pad 2 (hour dt) @ '':'' @ zero_pad 2 (minute dt) @ '':'' @ zero_pad 2 (second dt)"
    unfolding t take_date_time [OF assms(3)] by (simp add: date_time_text_def)
  have 2: "length (zero_pad 4 (year dt)) = 4 \<and> length (zero_pad 2 (month dt)) = 2 \<and>
         length (zero_pad 2 (day dt)) = 2 \<and> length (zero_pad 2 (hour dt)) = 2 \<and>
         length (zero_pad 2 (minute dt)) = 2 \<and> length (zero_pad 2 (second dt)) = 2"
    using b by (simp add: zero_pad_width)
  have 3: "hour dt \<le> 23"
    using assms(3) by (simp add: valid_datetime_def check_time_fields_def)
  have 4: "offset_field (stdout_text (run_script h)) = Some (format_offset (Some (utcoffset tz)))"
    unfolding t by (rule offset_field_render)
  have 5: "strptime_offset (format_offset (Some (utcoffset tz))) = Some (utcoffset tz)"
    by (rule strptime_format_offset [OF z])
  show ?thesis
    using 1 2 3 4 5 hhmm_length [OF z] unfolding f by blast
qed

theorem C2_fields_and_offset_witness:
  "stdout host_mmt = Accepting \<and>
   wallclock host_mmt = Inr dt_example \<and>
   localzone host_mmt = Inr \<lparr>utcoffset = - 2670, tzname = ''MMT''\<rparr> \<and>
   valid_datetime dt_example \<and> valid_timezone \<lparr>utcoffset = - 2670, tzname = ''MMT''\<rparr> \<and>
   take 19 (stdout_text (run_script host_mmt)) = ''2024-03-15 14:07:42'' \<and>
   offset_field (stdout_text (run_script host_mmt)) = Some ''-004430'' \<and>
   strptime_offset ''-004430'' = Some (- 2670)"
proof -
  have o: "stdout host_mmt = Accepting" by (simp add: host_mmt_def host_at_simps)
  let ?tz = "\<lparr>utcoffset = - 2670, tzname = ''MMT''\<rparr>"
  have a: "wallclock host_mmt = Inr dt_example" and b: "localzone host_mmt = Inr ?tz"
    by (simp_all add: host_mmt_def host_at_simps)
  have c: "valid_timezone ?tz" by (simp add: valid_timezone_def)
  have e: "hhmm (- 2670) = ''-0044''" "zero_pad 2 30 = ''30''"
    by (simp_all add: hhmm_def zero_pad_2 digit_char_def)
  from C2_fields_and_offset [OF a b valid_example c o] a b c o valid_example
  show ?thesis by (simp add: e text_mmt)
qed

theorem C2_counterexample:
  "offset_field (stdout_text (run_script host_mmt)) = Some ''-004430'' \<and>
   hhmm (- 2670) = ''-0044'' \<and>
   offset_field (stdout_text (run_script host_mmt)) \<noteq> Some (hhmm (- 2670))"
  unfolding text_mmt by (simp add: offset_field_def hhmm_def zero_pad_2 digit_char_def)

text \<open>
  C3. Round trip, for a line that was printed (clock and zone read, standard output
  accepting): the date and time portion of the printed line, parsed back with the
  inverse format, is a datetime that the clock reading exceeds by less than one second
  (by its microseconds), so by no more than five seconds.
\<close>

theorem C3_round_trip:
  assumes "wallclock h = Inr dt" "localzone h = Inr tz"
    and "valid_datetime dt" "tzinfo dt = None"
    and acc: "stdout h = Accepting"
  shows "\<exists>p d. strptime_datetime (take 19 (stdout_text (run_script h))) = Some p \<and>
           dt_sub dt p = Some d \<and> 0 \<le> d \<and> d < 1000000 \<and> d \<le> 5 * 1000000"
proof -
  have p: "strptime_datetime (take 19 (stdout_text (run_script h))) =
      Some (dt\<lparr>microsecond := 0, tzinfo := None\<rparr>)"
    unfolding main_text [OF assms(1,2) acc] by (rule strptime_render [OF assms(3)])
  have d: "dt_sub dt (dt\<lparr>microsecond := 0, tzinfo := None\<rparr>) = Some (int (microsecond dt))"
    by (rule dt_sub_truncated [OF assms(4)])
  have "microsecond dt \<le> 999999"
    using assms(3) by (simp add: valid_datetime_def check_time_fields_def)
  then have "0 \<le> int (microsecond dt) \<and> int (microsecond dt) < 1000000 \<and>
      int (microsecond dt) \<le> 5 * 1000000" by simp
  with p d show ?thesis by blast
qed

lemma tzinfo_example: "tzinfo dt_example = None"
  by (simp add: dt_example_def reading_def)

theorem C3_round_trip_witness:
  "stdout host_pdt = Accepting \<and>
   wallclock host_pdt = Inr dt_example \<and>
   localzone host_pdt = Inr \<lparr>utcoffset = - 25200, tzname = ''PDT''\<rparr> \<and>
   valid_datetime dt_example \<and> tzinfo dt_example = None \<and>
   (\<exists>p d. strptime_datetime ''2024-03-15 14:07:42'' = Some p \<and>
      dt_sub dt_example p = Some d \<and> 0 \<le> d \<and> d < 1000000 \<and> d \<le> 5 * 1000000)"
proof -
  have o: "stdout host_pdt = Accepting" by (simp add: host_pdt_def host_at_simps)
  have a: "wallclock host_pdt = Inr dt_example"
    and b: "localzone host_pdt = Inr \<lparr>utcoffset = - 25200, tzname = ''PDT''\<rparr>"
    by (simp_all add: host_pdt_def host_at_simps)
  from C3_round_trip [OF a b valid_example tzinfo_example o] a b o valid_example tzinfo_example
  show ?thesis by (simp add: text_pdt)
qed

text \<open>
  C4. Monotonicity, for two runs that print their line (clock and zone read, standard
  output accepting): both lines parse back, and the parsed timestamps keep the order of
  the readings. Read as instants (the local date and time at the printed
  offset), they are in the order of the two instants the runs read; read as local date
  and time, they are in the order of the two local readings. Formatting then parsing is
  flooring to whole seconds, which is monotone.
\<close>

theorem C4_monotone:
  assumes "wallclock h1 = Inr d1" "localzone h1 = Inr z1"
    and "wallclock h2 = Inr d2" "localzone h2 = Inr z2"
    and "valid_datetime d1" "valid_timezone z1" "tzinfo d1 = None"
    and "valid_datetime d2" "valid_timezone z2" "tzinfo d2 = None"
    and acc1: "stdout h1 = Accepting" and acc2: "stdout h2 = Accepting"
  shows "\<exists>p1 p2 q1 q2.
           parse_line (stdout_text (run_script h1)) = Some p1 \<and>
           parse_line (stdout_text (run_script h2)) = Some p2 \<and>
           strptime_datetime (take 19 (stdout_text (run_script h1))) = Some q1 \<and>
           strptime_datetime (take 19 (stdout_text (run_script h2))) = Some q2 \<and>
           (dt_le (d1\<lparr>tzinfo := Some z1\<rparr>) (d2\<lparr>tzinfo := Some z2\<rparr>) = Some True \<longrightarrow>
              dt_le p1 p2 = Some True) \<and>
           (dt_le d1 d2 = Some True \<longrightarrow> dt_le q1 q2 = Some True)"
proof -
  have u: "microsecond d1 \<le> 999999" "microsecond d2 \<le> 999999"
    using assms(5,8) by (simp_all add: valid_datetime_def check_time_fields_def)
  have p1: "parse_line (stdout_text (run_script h1)) =
      Some (d1\<lparr>microsecond := 0, tzinfo := Some \<lparr>utcoffset = utcoffset z1, tzname = []\<rparr>\<rparr>)"
    unfolding main_text [OF assms(1,2) acc1] by (rule parse_line_render [OF assms(5,6)])
  have p2: "parse_line (stdout_text (run_script h2)) =
      Some (d2\<lparr>microsecond := 0, tzinfo := Some \<lparr>utcoffset = utcoffset z2, tzname = []\<rparr>\<rparr>)"
    unfolding main_text [OF assms(3,4) acc2] by (rule parse_line_render [OF assms(8,9)])
  have q1: "strptime_datetime (take 19 (stdout_text (run_script h1))) =
      Some (d1\<lparr>microsecond := 0, tzinfo := None\<rparr>)"
    unfolding main_text [OF assms(1,2) acc1] by (rule strptime_render [OF assms(5)])
  have q2: "strptime_datetime (take 19 (stdout_text (run_script h2))) =
      Some (d2\<lparr>microsecond := 0, tzinfo := None\<rparr>)"
    unfolding main_text [OF assms(3,4) acc2] by (rule strptime_render [OF assms(8)])
  have aware: "dt_le (d1\<lparr>microsecond := 0, tzinfo := Some \<lparr>utcoffset = utcoffset z1, tzname = []\<rparr>\<rparr>)
      (d2\<lparr>microsecond := 0, tzinfo := Some \<lparr>utcoffset = utcoffset z2, tzname = []\<rparr>\<rparr>) = Some True"
    if "dt_le (d1\<lparr>tzinfo := Some z1\<rparr>) (d2\<lparr>tzinfo := Some z2\<rparr>) = Some True"
    by (rule dt_le_truncated [OF that u]) simp_all
  have naive: "dt_le (d1\<lparr>microsecond := 0, tzinfo := None\<rparr>) (d2\<lparr>microsecond := 0, tzinfo := None\<rparr>)
      = Some True"
    if "dt_le d1 d2 = Some True"
    by (rule dt_le_truncated_naive [OF that assms(7,10)])
  show ?thesis using p1 p2 q1 q2 aware naive by blast
qed

lemma valid_fallback: "valid_datetime dt_before_fallback" "valid_datetime dt_after_fallback"
  by (simp_all add: dt_before_fallback_def dt_after_fallback_def valid_reading
      check_date_fields_def check_time_fields_def days_in_month_def is_leap_def)

lemma naive_fallback: "tzinfo dt_before_fallback = None" "tzinfo dt_after_fallback = None"
  by (simp_all add: dt_before_fallback_def dt_after_fallback_def reading_def)

lemma fallback_order:
  "dt_le (dt_before_fallback\<lparr>tzinfo := Some \<lparr>utcoffset = - 14400, tzname = ''EDT''\<rparr>\<rparr>)
         (dt_after_fallback\<lparr>tzinfo := Some \<lparr>utcoffset = - 18000, tzname = ''EST''\<rparr>\<rparr>) = Some True"
  by (simp add: dt_le_def dt_sub_def dt_utcoffset_def toordinal_def day_seconds_def
      dt_before_fallback_def dt_after_fallback_def reading_def)

lemma fallback_local_order: "dt_le dt_after_fallback dt_before_fallback = Some True"
  by (simp add: dt_le_def dt_utcoffset_def field_tuple_def
      dt_before_fallback_def dt_after_fallback_def reading_def)

lemma text_edt: "stdout_text (run_script host_edt) = ''2024-11-03 01:59:59 EDT (-0400)\<newline>''"
  by (simp add: host_edt_def main_text [OF host_at_simps] render_def dt_before_fallback_def
      render_reading format_offset_def Let_def zero_pad_2 digit_char_def)

lemma text_est: "stdout_text (run_script host_est) = ''2024-11-03 01:00:00 EST (-0500)\<newline>''"
  by (simp add: host_est_def main_text [OF host_at_simps] render_def dt_after_fallback_def
      render_reading format_offset_def Let_def zero_pad_2 digit_char_def)

text \<open>
  The two readings around the end of daylight saving time: as instants the first is the
  earlier one, as local readings the second is.
\<close>

theorem C4_monotone_witness:
  "stdout host_edt = Accepting \<and> stdout host_est = Accepting \<and>
   wallclock host_edt = Inr dt_before_fallback \<and>
   localzone host_edt = Inr \<lparr>utcoffset = - 14400, tzname = ''EDT''\<rparr> \<and>
   wallclock host_est = Inr dt_after_fallback \<and>
   localzone host_est = Inr \<lparr>utcoffset = - 18000, tzname = ''EST''\<rparr> \<and>
   valid_datetime dt_before_fallback \<and> valid_datetime dt_after_fallback \<and>
   dt_le (dt_before_fallback\<lparr>tzinfo := Some \<lparr>utcoffset = - 14400, tzname = ''EDT''\<rparr>\<rparr>)
         (dt_after_fallback\<lparr>tzinfo := Some \<lparr>utcoffset = - 18000, tzname = ''EST''\<rparr>\<rparr>) = Some True \<and>
   dt_le dt_after_fallback dt_before_fallback = Some True \<and>
   (\<exists>p1 p2 q1 q2.
      parse_line ''2024-11-03 01:59:59 EDT (-0400)\<newline>'' = Some p1 \<and>
      parse_line ''2024-11-03 01:00:00 EST (-0500)\<newline>'' = Some p2 \<and>
      strptime_datetime ''2024-11-03 01:59:59'' = Some q1 \<and>
      strptime_datetime ''2024-11-03 01:00:00'' = Some q2 \<and>
      dt_le p1 p2 = Some True \<and> dt_le q2 q1 = Some True)"
proof -
  have o: "stdout host_edt = Accepting" "stdout host_est = Accepting"
    by (simp_all add: host_edt_def host_est_def host_at_simps)
  let ?z1 = "\<lparr>utcoffset = - 14400, tzname = ''EDT''\<rparr>"
  let ?z2 = "\<lparr>utcoffset = - 18000, tzname = ''EST''\<rparr>"
  have a: "wallclock host_edt = Inr dt_before_fallback" and b: "localzone host_edt = Inr ?z1"
    and c: "wallclock host_est = Inr dt_after_fallback" and d: "localzone host_est = Inr ?z2"
    by (simp_all add: host_edt_def host_est_def host_at_simps)
  have z: "valid_timezone ?z1" "valid_timezone ?z2" by (simp_all add: valid_timezone_def)
  from C4_monotone [OF a b c d valid_fallback(1) z(1) naive_fallback(1)
      valid_fallback(2) z(2) naive_fallback(2) o(1) o(2)]
  obtain p1 p2 q1 where
    1: "parse_line (stdout_text (run_script host_edt)) = Some p1"
      "parse_line (stdout_text (run_script host_est)) = Some p2"
      "strptime_datetime (take 19 (stdout_text (run_script host_edt))) = Some q1"
    and 2: "dt_le (dt_before_fallback\<lparr>tzinfo := Some ?z1\<rparr>) (dt_after_fallback\<lparr>tzinfo := Some ?z2\<rparr>)
      = Some True \<longrightarrow> dt_le p1 p2 = Some True"
    by blast
  from C4_monotone [OF c d a b valid_fallback(2) z(2) naive_fallback(2)
      valid_fallback(1) z(1) naive_fallback(1) o(2) o(1)]
  obtain r2 r1 where
    3: "strptime_datetime (take 19 (stdout_text (run_script host_est))) = Some r2"
      "strptime_datetime (take 19 (stdout_text (run_script host_edt))) = Some r1"
    and 4: "dt_le dt_after_fallback dt_before_fallback = Some True \<longrightarrow> dt_le r2 r1 = Some True"
    by blast
  have "dt_le p1 p2 = Some True" using 2 fallback_order by blast
  moreover have "dt_le r2 r1 = Some True" using 4 fallback_local_order by blast
  ultimately show ?thesis
    using 1 3 a b c d o valid_fallback fallback_order fallback_local_order
    by (simp add: text_edt text_est)
qed

text \<open>
  Instants in, local date and time out is not monotone: at the end of daylight saving time
  the later run prints the earlier local time. The offset field is what tells the two
  lines apart.
\<close>

lemma local_time_steps_back:
  "\<exists>q1 q2. strptime_datetime (take 19 (stdout_text (run_script host_edt))) = Some q1 \<and>
     strptime_datetime (take 19 (stdout_text (run_script host_est))) = Some q2 \<and>
     dt_le q1 q2 = Some False"
proof -
  have q1: "strptime_datetime (take 19 (stdout_text (run_script host_edt))) =
      Some (dt_before_fallback\<lparr>microsecond := 0, tzinfo := None\<rparr>)"
    unfolding host_edt_def main_text [OF host_at_simps] by (rule strptime_render [OF valid_fallback(1)])
  have q2: "strptime_datetime (take 19 (stdout_text (run_script host_est))) =
      Some (dt_after_fallback\<lparr>microsecond := 0, tzinfo := None\<rparr>)"
    unfolding host_est_def main_text [OF host_at_simps] by (rule strptime_render [OF valid_fallback(2)])
  have "dt_le (dt_before_fallback\<lparr>microsecond := 0, tzinfo := None\<rparr>)
      (dt_after_fallback\<lparr>microsecond := 0, tzinfo := None\<rparr>) = Some False"
    by (simp add: dt_le_def dt_utcoffset_def field_tuple_def
      dt_before_fallback_def dt_after_fallback_def reading_def)
  with q1 q2 show ?thesis by blast
qed

text \<open>
  C5. In normal operation (the clock and the zone are read and standard output accepts
  the write) the effects of an invocation are exactly one write, to standard output, of
  the formatted text followed by a newline: nothing goes to standard error and nothing
  else is written.
\<close>

theorem C5_single_stdout_write:
  assumes "wallclock h = Inr dt" "localzone h = Inr tz"
    and acc: "stdout h = Accepting"
  shows "effects (run_script h) = [Stdout_write (render dt tz @ [CHR 0x0A])]"
  by (simp add: run_script_prints [OF assms])

theorem C5_single_stdout_write_witness:
  "stdout host_pdt = Accepting \<and>
   wallclock host_pdt = Inr dt_example \<and>
   localzone host_pdt = Inr \<lparr>utcoffset = - 25200, tzname = ''PDT''\<rparr> \<and>
   effects (run_script host_pdt) = [Stdout_write (''2024-03-15 14:07:42 PDT (-0700)'' @ [CHR 0x0A])]"
proof -
  have o: "stdout host_pdt = Accepting" by (simp add: host_pdt_def host_at_simps)
  let ?tz = "\<lparr>utcoffset = - 25200, tzname = ''PDT''\<rparr>"
  have a: "wallclock host_pdt = Inr dt_example" and b: "localzone host_pdt = Inr ?tz"
    by (simp_all add: host_pdt_def host_at_simps)
  have r: "render dt_example ?tz = ''2024-03-15 14:07:42 PDT (-0700)''"
    by (simp add: render_def date_time_text_example format_offset_def Let_def zero_pad_2 digit_char_def)
  from C5_single_stdout_write [OF a b o] a b o show ?thesis by (simp add: r)
qed






text \<open>
  C8. When the clock call or the zone call raises, the exception is not handled: nothing
  is written to standard output, the interpreter reports that exception on standard error
  and the exit status is 1, not zero.
\<close>

theorem C8_fault_propagates:
  assumes "wallclock h = Inl e \<or> (\<exists>dt. wallclock h = Inr dt \<and> localzone h = Inl e)"
  shows "main h = Inl e \<and>
         effects (run_script h) = [Stderr_traceback e] \<and> exit_status (run_script h) = 1 \<and>
         exit_status (run_script h) \<noteq> 0 \<and> stdout_text (run_script h) = []"
proof -
  have "main h = Inl e"
    using assms by (auto simp: main_def astimezone_def)
  then show ?thesis by (simp add: run_script_def stdout_text_def)
qed

theorem C8_fault_propagates_witness:
  "wallclock host_clock_fault = Inl OSError \<and>
   effects (run_script host_clock_fault) = [Stderr_traceback OSError] \<and>
   exit_status (run_script host_clock_fault) = 1 \<and> stdout_text (run_script host_clock_fault) = []"
proof -
  have a: "wallclock host_clock_fault = Inl OSError" by (simp add: host_clock_fault_def)
  then have "wallclock host_clock_fault = Inl OSError \<or>
      (\<exists>dt. wallclock host_clock_fault = Inr dt \<and> localzone host_clock_fault = Inl OSError)" ..
  from C8_fault_propagates [OF this] a show ?thesis by blast
qed

text \<open>
  C9. The microsecond of the reading never reaches the output. On a run that prints its
  line (clock and zone read, standard output accepting), the printed line is the
  same whatever the microsecond is, so two readings in the same second print the same
  line; the date and time portion parsed back is the reading with microsecond 0, and
  counted from 1 January 1970 it is the reading floored to whole seconds.
\<close>

theorem C9_truncation:
  assumes "wallclock h = Inr dt" "localzone h = Inr tz"
    and "valid_datetime dt" "tzinfo dt = None"
    and acc: "stdout h = Accepting"
  shows "stdout_text (run_script (h\<lparr>wallclock := Inr (dt\<lparr>microsecond := us\<rparr>)\<rparr>)) = stdout_text (run_script h) \<and>
         strptime_datetime (take 19 (stdout_text (run_script h))) = Some (dt\<lparr>microsecond := 0\<rparr>) \<and>
         (\<exists>d. dt_sub dt epoch = Some d \<and>
            dt_sub (dt\<lparr>microsecond := 0\<rparr>) epoch = Some (d div 1000000 * 1000000))"
proof -
  have n: "dt\<lparr>microsecond := 0, tzinfo := None\<rparr> = dt\<lparr>microsecond := 0\<rparr>"
    using assms(4) by simp
  have w: "wallclock (h\<lparr>wallclock := Inr (dt\<lparr>microsecond := us\<rparr>)\<rparr>) = Inr (dt\<lparr>microsecond := us\<rparr>)"
    and l: "localzone (h\<lparr>wallclock := Inr (dt\<lparr>microsecond := us\<rparr>)\<rparr>) = Inr tz"
    and o: "stdout (h\<lparr>wallclock := Inr (dt\<lparr>microsecond := us\<rparr>)\<rparr>) = Accepting"
    using assms(2) acc by simp_all
  have "render (dt\<lparr>microsecond := us\<rparr>) tz = render dt tz"
    by (simp add: render_def date_time_text_def)
  then have 1: "stdout_text (run_script (h\<lparr>wallclock := Inr (dt\<lparr>microsecond := us\<rparr>)\<rparr>)) = stdout_text (run_script h)"
    unfolding main_text [OF w l o] main_text [OF assms(1,2) acc] by simp
  have 2: "strptime_datetime (take 19 (stdout_text (run_script h))) = Some (dt\<lparr>microsecond := 0\<rparr>)"
    unfolding main_text [OF assms(1,2) acc] strptime_render [OF assms(3)] n ..
  have "microsecond dt \<le> 999999"
    using assms(3) by (simp add: valid_datetime_def check_time_fields_def)
  from dt_sub_floor [OF assms(4) this]
  have 3: "\<exists>d. dt_sub dt epoch = Some d \<and>
      dt_sub (dt\<lparr>microsecond := 0\<rparr>) epoch = Some (d div 1000000 * 1000000)"
    unfolding n .
  from 1 2 3 show ?thesis by blast
qed

theorem C9_truncation_witness:
  "stdout host_pdt = Accepting \<and>
   wallclock host_pdt = Inr dt_example \<and>
   localzone host_pdt = Inr \<lparr>utcoffset = - 25200, tzname = ''PDT''\<rparr> \<and>
   valid_datetime dt_example \<and> tzinfo dt_example = None \<and> microsecond dt_example = 123456 \<and>
   stdout_text (run_script (host_pdt\<lparr>wallclock := Inr (dt_example\<lparr>microsecond := 999999\<rparr>)\<rparr>)) =
     ''2024-03-15 14:07:42 PDT (-0700)\<newline>'' \<and>
   strptime_datetime ''2024-03-15 14:07:42'' = Some (dt_example\<lparr>microsecond := 0\<rparr>)"
proof -
  have o: "stdout host_pdt = Accepting" by (simp add: host_pdt_def host_at_simps)
  have a: "wallclock host_pdt = Inr dt_example"
    and b: "localzone host_pdt = Inr \<lparr>utcoffset = - 25200, tzname = ''PDT''\<rparr>"
    by (simp_all add: host_pdt_def host_at_simps)
  have m: "microsecond dt_example = 123456" by (simp add: dt_example_def reading_def)
  from C9_truncation [OF a b valid_example tzinfo_example o, of 999999] a b o valid_example tzinfo_example m
  show ?thesis by (simp add: text_pdt)
qed

text \<open>
  C10. When the zone has an empty name and the line is printed (clock and zone read,
  standard output accepting), the printed line is the nineteen characters of
  date and time, two spaces, and the parenthesised offset; it matches the output pattern
  whenever the offset is a whole number of minutes. With an offset that has seconds the
  line does not match, as for any other name.
\<close>

theorem C10_empty_name:
  assumes "wallclock h = Inr dt" "localzone h = Inr tz" "tzname tz = []"
    and "valid_datetime dt" "valid_timezone tz"
    and acc: "stdout h = Accepting"
  shows "stdout_text (run_script h) =
           date_time_text dt @ ''  ('' @ format_offset (Some (utcoffset tz)) @ '')'' @ [CHR 0x0A] \<and>
         length (date_time_text dt) = 19 \<and>
         (utcoffset tz mod 60 = 0 \<longrightarrow> re_match output_pattern (stdout_text (run_script h)))"
proof -
  have 1: "stdout_text (run_script h) =
      date_time_text dt @ ''  ('' @ format_offset (Some (utcoffset tz)) @ '')'' @ [CHR 0x0A]"
    by (simp add: main_text [OF assms(1,2) acc] render_def assms(3))
  have 2: "length (date_time_text dt) = 19" by (rule date_time_text_length [OF assms(4)])
  have "re_match output_pattern (render dt tz @ [CHR 0x0A])" if "utcoffset tz mod 60 = 0"
    using that assms(3-5) by (intro render_matches) simp_all
  then have 3: "utcoffset tz mod 60 = 0 \<longrightarrow> re_match output_pattern (stdout_text (run_script h))"
    by (simp add: main_text [OF assms(1,2) acc])
  from 1 2 3 show ?thesis by blast
qed

theorem C10_empty_name_witness:
  "stdout host_noname_utc = Accepting \<and>
   wallclock host_noname_utc = Inr dt_example \<and>
   localzone host_noname_utc = Inr \<lparr>utcoffset = 0, tzname = []\<rparr> \<and>
   valid_datetime dt_example \<and> valid_timezone \<lparr>utcoffset = 0, tzname = []\<rparr> \<and>
   stdout_text (run_script host_noname_utc) = ''2024-03-15 14:07:42  (+0000)\<newline>'' \<and>
   re_match output_pattern ''2024-03-15 14:07:42  (+0000)\<newline>''"
proof -
  have o: "stdout host_noname_utc = Accepting" by (simp add: host_noname_utc_def host_at_simps)
  let ?tz = "\<lparr>utcoffset = 0, tzname = []\<rparr>"
  have a: "wallclock host_noname_utc = Inr dt_example" and b: "localzone host_noname_utc = Inr ?tz"
    by (simp_all add: host_noname_utc_def host_at_simps)
  have c: "valid_timezone ?tz" by (simp add: valid_timezone_def)
  have n: "tzname ?tz = []" by simp
  from C10_empty_name [OF a b n valid_example c o] a b c o valid_example
  show ?thesis by (simp add: text_noname_utc)
qed

theorem C10_counterexample:
  "tzname \<lparr>utcoffset = 1172, tzname = []\<rparr> = [] \<and>
   localzone host_noname = Inr \<lparr>utcoffset = 1172, tzname = []\<rparr> \<and>
   stdout_text (run_script host_noname) = ''2024-03-15 14:07:42  (+001932)\<newline>'' \<and>
   \<not> re_match output_pattern (stdout_text (run_script host_noname))"
  unfolding text_noname by (simp add: pattern_eval host_noname_def host_at_simps)

end
